theory Spec2Isabelle
  imports
    Complex_Main
    "HOL-Library.AList"
    "HOL-Library.Char_ord"
    "HOL-Library.List_Lexorder"
    "HOL-Library.Word"
begin

section \<open>Python values and built-ins used by backend/routes.py\<close>

text \<open>
  A Python \<open>str\<close> is modelled as the list of its characters. HOL's \<open>char\<close> has 256
  values, so the model covers strings whose code points are below 256; on those,
  \<open>len\<close>, slicing, concatenation and comparison are the list operations. A \<open>bytes\<close>
  object is a list of 8-bit words.
\<close>

type_synonym bytes = "8 word list"

text \<open>
  \<open>str.isspace\<close> for one character: the white-space code points of CPython below 256
  (TAB..CR, FS..US, SPACE, NEL, NBSP).
\<close>

definition isspace :: "char \<Rightarrow> bool" where
  "isspace c =
     (let n = (of_char c :: nat)
      in (9 \<le> n \<and> n \<le> 13) \<or> (28 \<le> n \<and> n \<le> 32) \<or> n = 133 \<or> n = 160)"

text \<open>\<open>str.strip()\<close> with no argument: drops leading and trailing white space.\<close>

definition strip :: "string \<Rightarrow> string" where
  "strip s = rev (dropWhile isspace (rev (dropWhile isspace s)))"

text \<open>\<open>str(n)\<close> for an integer: its decimal digits, with a minus sign when negative.\<close>

definition digit_char :: "nat \<Rightarrow> char" where
  "digit_char d = char_of (48 + d)"

function str_nat :: "nat \<Rightarrow> string" where
  "str_nat n = (if n < 10 then [digit_char n] else str_nat (n div 10) @ [digit_char (n mod 10)])"
  by pat_completeness auto
termination
  by (relation "measure (\<lambda>n. n)") auto

declare str_nat.simps [simp del]

definition str_int :: "int \<Rightarrow> string" where
  "str_int i = (if i < 0 then CHR ''-'' # str_nat (nat (- i)) else str_nat (nat i))"

text \<open>
  \<open>int(s)\<close> on a decimal numeral, the inverse of \<open>str\<close> on the integers; it serves to
  show that different integers have different numerals.
\<close>

definition digit_value :: "char \<Rightarrow> nat" where
  "digit_value c = of_char c - 48"

definition nat_of_digits :: "string \<Rightarrow> nat" where
  "nat_of_digits ds = foldl (\<lambda>n c. 10 * n + digit_value c) 0 ds"

definition int_of_str :: "string \<Rightarrow> int" where
  "int_of_str s =
     (case s of
        [] \<Rightarrow> 0
      | c # ds \<Rightarrow> if c = CHR ''-'' then - int (nat_of_digits ds) else int (nat_of_digits s))"

text \<open>
  \<open>os.path.join\<close> with two components, as \<open>posixpath\<close> defines it: a second component
  that starts with the separator replaces the first; a first component that is empty or
  ends with the separator is followed directly by the second; otherwise the separator
  is put between them.
\<close>

definition os_path_join :: "string \<Rightarrow> string \<Rightarrow> string" where
  "os_path_join a b =
     (if take 1 b = ''/'' then b
      else if a = [] \<or> take 1 (rev a) = ''/'' then a @ b
      else a @ ''/'' @ b)"

text \<open>Python exceptions that the handlers' \<open>except Exception\<close> clauses can see.\<close>

datatype exn =
    AttributeError
  | FileNotFoundError
  | IsADirectoryError
  | OverflowError

section \<open>The file system holding the audio directory\<close>

text \<open>
  The file system is an association list from path to node; the first entry for a path
  is the one the path denotes. A node is a regular file with its bytes, or a directory.
\<close>

datatype node = File bytes | Dir

type_synonym filesystem = "(string \<times> node) list"

definition os_path_exists :: "filesystem \<Rightarrow> string \<Rightarrow> bool" where
  "os_path_exists fs p = (case map_of fs p of None \<Rightarrow> False | Some _ \<Rightarrow> True)"

text \<open>\<open>open(p, "rb").read()\<close>\<close>

definition read_bytes :: "filesystem \<Rightarrow> string \<Rightarrow> exn + bytes" where
  "read_bytes fs p =
     (case map_of fs p of
        None \<Rightarrow> Inl FileNotFoundError
      | Some Dir \<Rightarrow> Inl IsADirectoryError
      | Some (File b) \<Rightarrow> Inr b)"

text \<open>\<open>os.remove(p)\<close>: unlinks a regular file, raises on a missing path or a directory.\<close>

definition os_remove :: "filesystem \<Rightarrow> string \<Rightarrow> exn + filesystem" where
  "os_remove fs p =
     (case map_of fs p of
        None \<Rightarrow> Inl FileNotFoundError
      | Some Dir \<Rightarrow> Inl IsADirectoryError
      | Some (File b) \<Rightarrow> Inr (AList.delete p fs))"

text \<open>
  \<open>os.listdir(d)\<close>: the names \<open>n\<close> (without a separator) of the entries whose path is
  \<open>os.path.join(d, n)\<close>.
\<close>

definition basename :: "string \<Rightarrow> string" where
  "basename p = rev (takeWhile (\<lambda>c. c \<noteq> CHR ''/'') (rev p))"

definition os_listdir :: "filesystem \<Rightarrow> string \<Rightarrow> string list" where
  "os_listdir fs d =
     map basename (filter (\<lambda>p. basename p \<noteq> [] \<and> os_path_join d (basename p) = p) (map fst fs))"

definition endswith :: "string \<Rightarrow> string \<Rightarrow> bool" where
  "endswith s suffix = (drop (length s - length suffix) s = suffix \<and> length suffix \<le> length s)"

section \<open>What the process supplies\<close>

text \<open>
  \<open>AUDIO_DIR\<close> is a constant of \<open>job_management.tts_processor\<close>, a module outside
  \<open>backend/routes.py\<close>; it is a parameter. \<open>str_hash\<close> is the built-in \<open>hash\<close> on
  strings of the running interpreter: CPython keys it with a value drawn at process
  start (unless \<open>PYTHONHASHSEED\<close> fixes it), so it is a property of the process, not of
  the program. \<open>fromtimestamp_isoformat t\<close> is
  \<open>datetime.datetime.fromtimestamp(t).isoformat()\<close>, which depends on the local time
  zone and raises for a time stamp out of range. \<open>artifact_created_at\<close> is explained
  with \<open>load_jobs\<close> below.
\<close>

record runtime =
  AUDIO_DIR :: string
  str_hash :: "string \<Rightarrow> int"
  fromtimestamp_isoformat :: "real \<Rightarrow> exn + string"
  artifact_created_at :: "string \<Rightarrow> string option"

section \<open>The job manager\<close>

datatype JobStatus = QUEUED | PROCESSING | COMPLETED | FAILED

text \<open>Modelled from the spec: the enum \<open>JobStatus\<close> is declared in \<open>job_management\<close>, a
  module outside \<open>backend/routes.py\<close>. The spec names its four members; the value of a
  member is taken to be its lower-case name, as the literal \<open>"completed"\<close> that
  \<open>get_job_status\<close> returns for an existing audio file suggests.
\<close>

fun JobStatus_value :: "JobStatus \<Rightarrow> string" where
  "JobStatus_value QUEUED = ''queued''"
| "JobStatus_value PROCESSING = ''processing''"
| "JobStatus_value COMPLETED = ''completed''"
| "JobStatus_value FAILED = ''failed''"

text \<open>\<open>TTSRequest\<close>, as \<open>tts_endpoint\<close> constructs it: the text and four synthesis
  parameters that the routes pass through unchanged.\<close>

record TTSRequest =
  text' :: string
  voice :: string
  pitch :: int
  speed :: int
  volume :: int

text \<open>Modelled from the spec: the job record of section 3 (identity, request, status,
  creation time); the identity is the key of the table.
\<close>

record job_info =
  request :: TTSRequest
  status :: JobStatus
  created_at :: real

text \<open>Modelled from the spec: the class \<open>JobManager\<close> is declared in \<open>job_management\<close>,
  a module outside \<open>backend/routes.py\<close>. Section 4.1: the manager owns the table of
  in-memory job records (a dictionary, kept here in insertion order), the queue of
  pending work and the number of workers.
\<close>

record JobManager =
  max_concurrent :: int
  jobs :: "(string \<times> job_info) list"
  queue :: "string list"

text \<open>Modelled from the spec: \<open>queue_size()\<close> \<open>returns the current count of jobs not yet
  COMPLETED/FAILED (QUEUED + PROCESSING)\<close>.
\<close>

definition JobManager_get_queue_size :: "JobManager \<Rightarrow> int" where
  "JobManager_get_queue_size m =
     int (length (filter (\<lambda>(job_id, job). status job = QUEUED \<or> status job = PROCESSING) (jobs m)))"

text \<open>Modelled from the spec: \<open>submit(request)\<close> \<open>constructs a Job Record with status QUEUED
  and a fresh unique identifier, appends it to the pending queue, records creation
  time, and returns\<close> the identifier. The identifier and the time are drawn from the
  identifier generator and the clock; here they are arguments.
\<close>

definition JobManager_add_job ::
  "JobManager \<Rightarrow> TTSRequest \<Rightarrow> string \<Rightarrow> real \<Rightarrow> string \<times> JobManager" where
  "JobManager_add_job m req fresh_id now =
     (fresh_id,
      m\<lparr>jobs := AList.update fresh_id \<lparr>request = req, status = QUEUED, created_at = now\<rparr> (jobs m),
        queue := queue m @ [fresh_id]\<rparr>)"

text \<open>Modelled from the spec: \<open>job_status(job_id)\<close> \<open>returns the current status of an
  in-memory job, or a not-found signal if the identifier is unknown to memory\<close>.
\<close>

definition JobManager_get_job_status :: "JobManager \<Rightarrow> string \<Rightarrow> JobStatus option" where
  "JobManager_get_job_status m job_id = map_option status (map_of (jobs m) job_id)"

text \<open>Modelled from the spec: \<open>cleanup(job_id)\<close> \<open>removes the in-memory record for job_id if
  present; idempotent; no-op if absent\<close>.
\<close>

definition JobManager_cleanup_job :: "JobManager \<Rightarrow> string \<Rightarrow> JobManager" where
  "JobManager_cleanup_job m job_id = m\<lparr>jobs := AList.delete job_id (jobs m)\<rparr>"

section \<open>backend/routes.py\<close>

subsection \<open>Requests, responses and errors\<close>

text \<open>
  \<open>TTSRequestModel\<close> is declared in \<open>models\<close>, a module outside
  \<open>backend/routes.py\<close>. \<open>tts_endpoint\<close> reads five attributes of it and tests \<open>not request.text\<close>, so the
  text is optional here: \<open>None\<close> is an absent text.
\<close>

datatype TTSRequestModel =
  TTSRequestModel
    (model_text: "string option")
    (model_voice: string)
    (model_pitch: int)
    (model_speed: int)
    (model_volume: int)

datatype TTSResponseModel = TTSResponseModel string

text \<open>\<open>JobStatusResponse(job_id, status, message)\<close>\<close>

datatype JobStatusResponse = JobStatusResponse string string string

text \<open>
  The \<open>detail\<close> of an \<open>HTTPException\<close>: one constructor for each message the
  handlers build, with the values they put in it (the trace-back text of a 500 is left
  out).
\<close>

datatype detail =
    Text_is_required
  | Server_at_capacity int
  | Job_not_found string
  | Audio_not_found_or_not_ready string
  | Audio_incomplete string
  | Audio_not_found string
  | Internal_error exn

datatype HTTPException = HTTPException (status_code: nat) (detail: detail)

text \<open>
  The \<open>Response\<close> of \<open>get_audio\<close>: its body, its media type, and the headers that
  the handler assigns, in the order of assignment.
\<close>

record Response =
  content :: bytes
  media_type :: string
  headers :: "(string \<times> string) list"

text \<open>The dictionary that \<open>delete_audio\<close> returns: its message names the job.\<close>

datatype deleted = Audio_deleted_successfully string

text \<open>
  An entry of the job listing is a dictionary with the keys \<open>job_id\<close>, \<open>status\<close>,
  \<open>created_at\<close>, \<open>audio_exists\<close> and \<open>text\<close>. The handler reads \<open>created_at\<close> with
  \<open>x.get("created_at", "")\<close>, so that key may be absent; so may the text of a
  completed job.
\<close>

record job_dict =
  dict_job_id :: string
  dict_status :: string
  dict_created_at :: "string option"
  dict_audio_exists :: bool
  dict_text :: "string option"

subsection \<open>The state the handlers share\<close>

text \<open>
  The module global \<open>job_manager\<close> (\<open>None\<close> until \<open>initialize_router\<close> has run) and the
  file system.
\<close>

record state =
  job_manager :: "JobManager option"
  fs :: filesystem

definition initialize_router :: "state \<Rightarrow> JobManager \<Rightarrow> state" where
  "initialize_router s manager = s\<lparr>job_manager := Some manager\<rparr>"

text \<open>\<open>os.path.join(AUDIO_DIR, f"{job_id}.mp3")\<close>\<close>

definition audio_path :: "runtime \<Rightarrow> string \<Rightarrow> string" where
  "audio_path rt job_id = os_path_join (AUDIO_DIR rt) (job_id @ ''.mp3'')"

text \<open>
  A task handed to \<open>BackgroundTasks.add_task\<close>: it runs after the response has been
  sent. The only task of this module is \<open>job_manager.cleanup_job(job_id)\<close>.
\<close>

datatype task = cleanup_job_task string

definition run_task :: "state \<Rightarrow> task \<Rightarrow> state" where
  "run_task s t =
     (case t of cleanup_job_task job_id \<Rightarrow>
        s\<lparr>job_manager := map_option (\<lambda>m. JobManager_cleanup_job m job_id) (job_manager s)\<rparr>)"

subsection \<open>GET /tts/jobs\<close>

text \<open>Modelled from the spec: \<open>load_jobs\<close> is a function of the module \<open>storage\<close>, outside
  \<open>backend/routes.py\<close>. Section 4.2: the completed jobs are \<open>derived by scanning the Artifact Store for all
  persisted artifacts and deriving summary metadata (job_id, inferred completion marker,
  no in-memory text)\<close>. The scan is the one \<open>health_check\<close> makes: the names in
  \<open>AUDIO_DIR\<close> that end in \<open>.mp3\<close>; the job identifier is the name without that suffix.
  The spec does not say from what the creation time of a completed job is inferred, nor
  that the entry has one: it is the parameter \<open>artifact_created_at\<close> of the process.
\<close>

definition completed_job :: "runtime \<Rightarrow> string \<Rightarrow> job_dict" where
  "completed_job rt filename =
     (let job_id = take (length filename - 4) filename
      in \<lparr>dict_job_id = job_id,
          dict_status = ''completed'',
          dict_created_at = artifact_created_at rt job_id,
          dict_audio_exists = True,
          dict_text = None\<rparr>)"

definition load_jobs :: "runtime \<Rightarrow> filesystem \<Rightarrow> job_dict list" where
  "load_jobs rt files =
     map (completed_job rt) (filter (\<lambda>f. endswith f ''.mp3'') (os_listdir files (AUDIO_DIR rt)))"

text \<open>\<open>t[:100] + "..." if len(t) > 100 else t\<close>\<close>

definition text_preview :: "string \<Rightarrow> string" where
  "text_preview t = (if length t > 100 then take 100 t @ ''...'' else t)"

text \<open>
  The loop over \<open>job_manager.jobs.items()\<close>: a job whose audio file exists is skipped
  (\<open>continue\<close>); any other job is appended as an active job. The conversion of the
  creation time may raise, which ends the loop.
\<close>

fun active_jobs_loop ::
  "runtime \<Rightarrow> filesystem \<Rightarrow> (string \<times> job_info) list \<Rightarrow> exn + job_dict list" where
  "active_jobs_loop rt files [] = Inr []"
| "active_jobs_loop rt files ((job_id, info) # items) =
     (if os_path_exists files (audio_path rt job_id) then active_jobs_loop rt files items
      else
        (case fromtimestamp_isoformat rt (created_at info) of
           Inl e \<Rightarrow> Inl e
         | Inr isoformat \<Rightarrow>
             (case active_jobs_loop rt files items of
                Inl e \<Rightarrow> Inl e
              | Inr active_jobs \<Rightarrow>
                  Inr (\<lparr>dict_job_id = job_id,
                        dict_status = JobStatus_value (status info),
                        dict_created_at = Some isoformat,
                        dict_audio_exists = False,
                        dict_text = Some (text_preview (text' (request info)))\<rparr>
                       # active_jobs))))"

text \<open>\<open>if job_manager:\<close> guards the loop; without a manager there are no active jobs.\<close>

definition active_jobs_of :: "runtime \<Rightarrow> state \<Rightarrow> exn + job_dict list" where
  "active_jobs_of rt s =
     (case job_manager s of
        None \<Rightarrow> Inr []
      | Some m \<Rightarrow> active_jobs_loop rt (fs s) (jobs m))"

text \<open>The sort key \<open>lambda x: x.get("created_at", "")\<close>.\<close>

definition created_at_key :: "job_dict \<Rightarrow> string" where
  "created_at_key x = (case dict_created_at x of None \<Rightarrow> [] | Some c \<Rightarrow> c)"

text \<open>
  \<open>list.sort(key=k, reverse=True)\<close>: CPython reverses the list, sorts it stably in
  ascending order of the key, and reverses it again, so that equal keys keep their
  order. Strings compare lexicographically by code point.
\<close>

definition sort_reverse :: "('a \<Rightarrow> string) \<Rightarrow> 'a list \<Rightarrow> 'a list" where
  "sort_reverse k xs = rev (sort_key k (rev xs))"

definition get_all_jobs :: "runtime \<Rightarrow> state \<Rightarrow> HTTPException + job_dict list" where
  "get_all_jobs rt s =
     (let completed_jobs = load_jobs rt (fs s)
      in case active_jobs_of rt s of
           Inl e \<Rightarrow> Inl (HTTPException 500 (Internal_error e))
         | Inr active_jobs \<Rightarrow>
             Inr (take 50 (sort_reverse created_at_key (completed_jobs @ active_jobs))))"

subsection \<open>POST /tts\<close>

text \<open>\<open>not request.text or request.text.strip() == ""\<close>\<close>

definition text_missing :: "string option \<Rightarrow> bool" where
  "text_missing t = (case t of None \<Rightarrow> True | Some x \<Rightarrow> x = [] \<or> strip x = [])"

text \<open>
  The handler, with the identifier and the time that \<open>add_job\<close> draws as arguments.
  The logging of the client and of the content length does not change the result. A
  call on the manager while the global is still \<open>None\<close> raises \<open>AttributeError\<close>, which
  the handler turns into a 500.
\<close>

definition tts_endpoint ::
  "state \<Rightarrow> TTSRequestModel \<Rightarrow> string \<Rightarrow> real \<Rightarrow> (HTTPException + TTSResponseModel) \<times> state" where
  "tts_endpoint s req fresh_id now =
     (if text_missing (model_text req) then (Inl (HTTPException 400 Text_is_required), s)
      else
        (case job_manager s of
           None \<Rightarrow> (Inl (HTTPException 500 (Internal_error AttributeError)), s)
         | Some m \<Rightarrow>
             if JobManager_get_queue_size m > max_concurrent m * 2
             then (Inl (HTTPException 503 (Server_at_capacity (JobManager_get_queue_size m))), s)
             else
               (let (job_id, m') =
                      JobManager_add_job m
                        \<lparr>text' = strip (case model_text req of None \<Rightarrow> [] | Some t \<Rightarrow> t),
                         voice = model_voice req,
                         pitch = model_pitch req,
                         speed = model_speed req,
                         volume = model_volume req\<rparr>
                        fresh_id now
                in (Inr (TTSResponseModel job_id), s\<lparr>job_manager := Some m'\<rparr>))))"

subsection \<open>GET /tts/status/{job_id}\<close>

definition get_job_status :: "runtime \<Rightarrow> state \<Rightarrow> string \<Rightarrow> HTTPException + JobStatusResponse" where
  "get_job_status rt s job_id =
     (if os_path_exists (fs s) (audio_path rt job_id)
      then Inr (JobStatusResponse job_id ''completed'' ''Audio is ready'')
      else
        (case job_manager s of
           None \<Rightarrow> Inl (HTTPException 500 (Internal_error AttributeError))
         | Some m \<Rightarrow>
             (case JobManager_get_job_status m job_id of
                None \<Rightarrow> Inl (HTTPException 404 (Job_not_found job_id))
              | Some st \<Rightarrow>
                  Inr (JobStatusResponse job_id (JobStatus_value st)
                         (if st = PROCESSING then ''Audio is being processed''
                          else ''Audio is ready'')))))"

subsection \<open>GET /tts/audio/{job_id}\<close>

text \<open>The ETag \<open>f'"{hash(job_id)}"'\<close>.\<close>

definition etag :: "runtime \<Rightarrow> string \<Rightarrow> string" where
  "etag rt job_id = [CHR 0x22] @ str_int (str_hash rt job_id) @ [CHR 0x22]"

definition get_audio :: "runtime \<Rightarrow> state \<Rightarrow> string \<Rightarrow> HTTPException + Response" where
  "get_audio rt s job_id =
     (if os_path_exists (fs s) (audio_path rt job_id)
      then
        (case read_bytes (fs s) (audio_path rt job_id) of
           Inl e \<Rightarrow> Inl (HTTPException 500 (Internal_error e))
         | Inr audio_data \<Rightarrow>
             if audio_data = [] \<or> length audio_data < 100
             then Inl (HTTPException 422 (Audio_incomplete job_id))
             else
               Inr \<lparr>content = audio_data,
                    media_type = ''audio/mpeg'',
                    headers = [(''Cache-Control'', ''public, max-age=86400''),
                               (''ETag'', etag rt job_id)]\<rparr>)
      else Inl (HTTPException 404 (Audio_not_found_or_not_ready job_id)))"

subsection \<open>DELETE /tts/audio/{job_id}\<close>

text \<open>
  The handler returns its result, the state it leaves, and the background tasks: those
  it was given, followed by the one it adds. When the removal has succeeded and the
  test on the manager raises, the file stays removed.
\<close>

definition delete_audio ::
  "runtime \<Rightarrow> state \<Rightarrow> string \<Rightarrow> task list \<Rightarrow> (HTTPException + deleted) \<times> state \<times> task list" where
  "delete_audio rt s job_id background_tasks =
     (if os_path_exists (fs s) (audio_path rt job_id)
      then
        (case os_remove (fs s) (audio_path rt job_id) of
           Inl e \<Rightarrow> (Inl (HTTPException 500 (Internal_error e)), s, background_tasks)
         | Inr files \<Rightarrow>
             (case job_manager s of
                None \<Rightarrow>
                  (Inl (HTTPException 500 (Internal_error AttributeError)),
                   s\<lparr>fs := files\<rparr>, background_tasks)
              | Some m \<Rightarrow>
                  (Inr (Audio_deleted_successfully job_id),
                   s\<lparr>fs := files\<rparr>,
                   (case map_of (jobs m) job_id of
                      None \<Rightarrow> background_tasks
                    | Some _ \<Rightarrow> background_tasks @ [cleanup_job_task job_id]))))
      else (Inl (HTTPException 404 (Audio_not_found job_id)), s, background_tasks))"

section \<open>An example state\<close>

text \<open>
  A process whose audio directory is \<open>audio\<close>, a manager with a PROCESSING job \<open>a\<close> and a
  QUEUED job \<open>b\<close>, and a file system in which \<open>a\<close> has an audio file of three bytes and
  \<open>c\<close>, which the manager does not know, one of a hundred bytes.
\<close>

definition example_runtime :: runtime where
  "example_runtime =
     \<lparr>AUDIO_DIR = ''audio'',
      str_hash = (\<lambda>job_id. 41 + int (length job_id)),
      fromtimestamp_isoformat =
        (\<lambda>t. if t < 0 then Inl OverflowError
             else if t < 1 then Inr ''2024-05-01T10:00:00''
             else Inr ''2024-05-01T10:00:01.500000''),
      artifact_created_at = (\<lambda>job_id. Some ''2024-04-30T09:00:00'')\<rparr>"

definition example_manager :: JobManager where
  "example_manager =
     \<lparr>max_concurrent = 2,
      jobs =
        [(''a'', \<lparr>request = \<lparr>text' = ''first'', voice = ''en'', pitch = 0, speed = 0, volume = 0\<rparr>,
                 status = PROCESSING, created_at = 0\<rparr>),
         (''b'', \<lparr>request = \<lparr>text' = ''second'', voice = ''en'', pitch = 0, speed = 0, volume = 0\<rparr>,
                 status = QUEUED, created_at = 1\<rparr>)],
      queue = [''b'']\<rparr>"

definition example_state :: state where
  "example_state =
     \<lparr>job_manager = Some example_manager,
      fs = [(''audio/a.mp3'', File [1, 2, 3]), (''audio/c.mp3'', File (replicate 100 0))]\<rparr>"

text \<open>The same program in another process, whose string hash is another function.\<close>

definition restarted_runtime :: runtime where
  "restarted_runtime = example_runtime\<lparr>str_hash := \<lambda>job_id. - 7 - int (length job_id)\<rparr>"

text \<open>
  A process in the time zone Europe/Berlin, and a manager with two queued jobs created
  half an hour apart in the night in which daylight saving time ended in 2023: at
  1698539400 the local time is 02:30 (summer time), at 1698541200 it is 02:00 (standard
  time). The conversion is given at these two time stamps only.
\<close>

definition dst_runtime :: runtime where
  "dst_runtime =
     \<lparr>AUDIO_DIR = ''audio'',
      str_hash = (\<lambda>job_id. 41 + int (length job_id)),
      fromtimestamp_isoformat =
        (\<lambda>t. if t = 1698539400 then Inr ''2023-10-29T02:30:00''
             else if t = 1698541200 then Inr ''2023-10-29T02:00:00''
             else Inl OverflowError),
      artifact_created_at = (\<lambda>job_id. None)\<rparr>"

definition dst_manager :: JobManager where
  "dst_manager =
     \<lparr>max_concurrent = 2,
      jobs =
        [(''old'', \<lparr>request = \<lparr>text' = ''first'', voice = ''en'', pitch = 0, speed = 0, volume = 0\<rparr>,
                   status = QUEUED, created_at = 1698539400\<rparr>),
         (''new'', \<lparr>request = \<lparr>text' = ''second'', voice = ''en'', pitch = 0, speed = 0, volume = 0\<rparr>,
                   status = QUEUED, created_at = 1698541200\<rparr>)],
      queue = [''old'', ''new'']\<rparr>"

definition dst_state :: state where
  "dst_state = \<lparr>job_manager = Some dst_manager, fs = []\<rparr>"

section \<open>Properties\<close>

subsection \<open>White space and the text test\<close>

lemma strip_blank: "list_all isspace t \<Longrightarrow> strip t = []"
proof -
  assume "list_all isspace t"
  then have "dropWhile isspace t = []"
    by (simp add: list_all_iff)
  then show ?thesis
    by (simp only: strip_def rev.simps dropWhile.simps)
qed

lemma strip_nonblank_nonempty: "strip t \<noteq> [] \<Longrightarrow> t \<noteq> []"
  by (auto simp: strip_def)

lemma text_missing_Some: "text_missing (Some t) = (strip t = [])"
  by (auto simp: text_missing_def strip_def)

subsection \<open>Submission\<close>

lemma tts_endpoint_rejects:
  "text_missing (model_text req) \<Longrightarrow>
   tts_endpoint s req fresh_id now = (Inl (HTTPException 400 Text_is_required), s)"
  by (simp add: tts_endpoint_def)

lemma tts_endpoint_at_capacity:
  assumes "model_text req = Some t" and "strip t \<noteq> []" and "job_manager s = Some m"
    and "JobManager_get_queue_size m > max_concurrent m * 2"
  shows "tts_endpoint s req fresh_id now =
           (Inl (HTTPException 503 (Server_at_capacity (JobManager_get_queue_size m))), s)"
  using assms by (simp add: tts_endpoint_def text_missing_Some)

lemma tts_endpoint_admits:
  assumes "model_text req = Some t" and "strip t \<noteq> []" and "job_manager s = Some m"
    and "JobManager_get_queue_size m \<le> max_concurrent m * 2"
  shows "tts_endpoint s req fresh_id now =
           (Inr (TTSResponseModel fresh_id),
            s\<lparr>job_manager := Some (snd (JobManager_add_job m
                 \<lparr>text' = strip t, voice = model_voice req, pitch = model_pitch req,
                  speed = model_speed req, volume = model_volume req\<rparr> fresh_id now))\<rparr>)"
  using assms by (simp add: tts_endpoint_def text_missing_Some JobManager_add_job_def)

lemma add_job_lookup:
  "map_of (jobs (snd (JobManager_add_job m r fresh_id now))) fresh_id =
     Some \<lparr>request = r, status = QUEUED, created_at = now\<rparr>"
  by (simp add: JobManager_add_job_def update_conv')

lemma tts_endpoint_Inr:
  assumes "tts_endpoint s req fresh_id now = (Inr (TTSResponseModel job_id), s')"
  shows "\<exists>t m. model_text req = Some t \<and> strip t \<noteq> [] \<and> job_manager s = Some m \<and>
           JobManager_get_queue_size m \<le> max_concurrent m * 2 \<and> job_id = fresh_id \<and>
           s' = s\<lparr>job_manager := Some (snd (JobManager_add_job m
                 \<lparr>text' = strip t, voice = model_voice req, pitch = model_pitch req,
                  speed = model_speed req, volume = model_volume req\<rparr> fresh_id now))\<rparr>"
  using assms
  by (auto simp: tts_endpoint_def text_missing_def JobManager_add_job_def
           split: if_splits option.splits)

text \<open>
  C5. A submission whose text is absent or empty is answered with the 400 error
  \<open>Text is required\<close>: no job identifier is returned, and the state that the handler
  leaves is the state it found, so no job record has been created and the queue size
  is what it was.
\<close>

theorem tts_endpoint_missing_text:
  "model_text req = None \<or> model_text req = Some [] \<Longrightarrow>
   tts_endpoint s req fresh_id now = (Inl (HTTPException 400 Text_is_required), s)"
  by (auto simp: tts_endpoint_rejects text_missing_def)

theorem tts_endpoint_missing_text_witness:
  "tts_endpoint \<lparr>job_manager = Some \<lparr>max_concurrent = 2, jobs = [], queue = []\<rparr>, fs = []\<rparr>
     (TTSRequestModel (Some []) ''en'' 0 0 0) ''j1'' 0
   = (Inl (HTTPException 400 Text_is_required),
      \<lparr>job_manager = Some \<lparr>max_concurrent = 2, jobs = [], queue = []\<rparr>, fs = []\<rparr>)
   \<and> tts_endpoint \<lparr>job_manager = Some \<lparr>max_concurrent = 2, jobs = [], queue = []\<rparr>, fs = []\<rparr>
     (TTSRequestModel None ''en'' 0 0 0) ''j1'' 0
   = (Inl (HTTPException 400 Text_is_required),
      \<lparr>job_manager = Some \<lparr>max_concurrent = 2, jobs = [], queue = []\<rparr>, fs = []\<rparr>)"
  using tts_endpoint_missing_text [of "TTSRequestModel (Some []) ''en'' 0 0 0"]
    tts_endpoint_missing_text [of "TTSRequestModel None ''en'' 0 0 0"]
  by simp

lemma strip_eq_Nil_iff: "strip t = [] \<longleftrightarrow> list_all isspace t"
proof
  assume "list_all isspace t"
  then show "strip t = []" by (rule strip_blank)
next
  assume e: "strip t = []"
  show "list_all isspace t"
  proof (rule ccontr)
    assume "\<not> list_all isspace t"
    then have ne: "dropWhile isspace t \<noteq> []"
      by (simp add: list_all_iff)
    then have "\<not> isspace (hd (dropWhile isspace t))"
      by (rule hd_dropWhile)
    moreover from ne have "hd (dropWhile isspace t) \<in> set (rev (dropWhile isspace t))"
      by simp
    ultimately have "dropWhile isspace (rev (dropWhile isspace t)) \<noteq> []"
      unfolding dropWhile_eq_Nil_conv by blast
    with e show False
      by (simp only: strip_def rev_is_Nil_conv)
  qed
qed

text \<open>
  C10. A submission whose text consists of white-space characters only is answered with
  the 400 error and leaves the state as it was, so no job is created. When a submission
  is admitted, the record stored under the returned identifier holds the text with its
  leading and trailing white space stripped.
\<close>

theorem tts_endpoint_blank_text_and_trimming:
  "(model_text req = Some t \<and> list_all isspace t \<longrightarrow>
      tts_endpoint s req fresh_id now = (Inl (HTTPException 400 Text_is_required), s))
   \<and> (tts_endpoint s req fresh_id now = (Inr (TTSResponseModel job_id), s') \<longrightarrow>
      (\<exists>raw m'. model_text req = Some raw \<and> job_manager s' = Some m' \<and>
         map_option (\<lambda>job. text' (request job)) (map_of (jobs m') job_id) = Some (strip raw)))"
proof (intro conjI impI)
  assume "model_text req = Some t \<and> list_all isspace t"
  then have "text_missing (model_text req)"
    by (simp add: text_missing_Some strip_blank)
  then show "tts_endpoint s req fresh_id now = (Inl (HTTPException 400 Text_is_required), s)"
    by (rule tts_endpoint_rejects)
next
  assume "tts_endpoint s req fresh_id now = (Inr (TTSResponseModel job_id), s')"
  from tts_endpoint_Inr [OF this] obtain raw m where
    raw: "model_text req = Some raw" and id: "job_id = fresh_id" and
    s': "s' = s\<lparr>job_manager := Some (snd (JobManager_add_job m
                 \<lparr>text' = strip raw, voice = model_voice req, pitch = model_pitch req,
                  speed = model_speed req, volume = model_volume req\<rparr> fresh_id now))\<rparr>"
    by blast
  show "\<exists>raw m'. model_text req = Some raw \<and> job_manager s' = Some m' \<and>
         map_option (\<lambda>job. text' (request job)) (map_of (jobs m') job_id) = Some (strip raw)"
    using raw by (simp add: s' id add_job_lookup)
qed

theorem tts_endpoint_blank_text_and_trimming_witness:
  "tts_endpoint \<lparr>job_manager = Some \<lparr>max_concurrent = 2, jobs = [], queue = []\<rparr>, fs = []\<rparr>
     (TTSRequestModel (Some [CHR '' '', CHR 0x09, CHR 0x0A]) ''en'' 0 0 0) ''j1'' 0
   = (Inl (HTTPException 400 Text_is_required),
      \<lparr>job_manager = Some \<lparr>max_concurrent = 2, jobs = [], queue = []\<rparr>, fs = []\<rparr>)
   \<and> tts_endpoint \<lparr>job_manager = Some \<lparr>max_concurrent = 2, jobs = [], queue = []\<rparr>, fs = []\<rparr>
     (TTSRequestModel (Some ''  hi there '') ''en'' 0 0 0) ''j1'' 0
   = (Inr (TTSResponseModel ''j1''),
      \<lparr>job_manager = Some \<lparr>max_concurrent = 2,
           jobs = [(''j1'', \<lparr>request = \<lparr>text' = ''hi there'', voice = ''en'', pitch = 0,
                                speed = 0, volume = 0\<rparr>, status = QUEUED, created_at = 0\<rparr>)],
           queue = [''j1'']\<rparr>, fs = []\<rparr>)
   \<and> (\<exists>raw m'. model_text (TTSRequestModel (Some ''  hi there '') ''en'' 0 0 0) = Some raw \<and>
        job_manager \<lparr>job_manager = Some \<lparr>max_concurrent = 2,
           jobs = [(''j1'', \<lparr>request = \<lparr>text' = ''hi there'', voice = ''en'', pitch = 0,
                                speed = 0, volume = 0\<rparr>, status = QUEUED, created_at = 0\<rparr>)],
           queue = [''j1'']\<rparr>, fs = []\<rparr> = Some m' \<and>
        map_option (\<lambda>job. text' (request job)) (map_of (jobs m') ''j1'') = Some (strip raw))"
proof -
  let ?s = "\<lparr>job_manager = Some \<lparr>max_concurrent = 2, jobs = [], queue = []\<rparr>, fs = []\<rparr>"
  let ?blank = "TTSRequestModel (Some [CHR '' '', CHR 0x09, CHR 0x0A]) ''en'' 0 0 0"
  let ?req = "TTSRequestModel (Some ''  hi there '') ''en'' 0 0 0"
  let ?s' = "\<lparr>job_manager = Some \<lparr>max_concurrent = 2,
           jobs = [(''j1'', \<lparr>request = \<lparr>text' = ''hi there'', voice = ''en'', pitch = 0,
                                speed = 0, volume = 0\<rparr>, status = QUEUED, created_at = 0\<rparr>)],
           queue = [''j1'']\<rparr>, fs = []\<rparr>"
  have blank: "model_text ?blank = Some [CHR '' '', CHR 0x09, CHR 0x0A] \<and>
      list_all isspace [CHR '' '', CHR 0x09, CHR 0x0A]"
    by (simp add: isspace_def)
  have run: "tts_endpoint ?s ?req ''j1'' 0 = (Inr (TTSResponseModel ''j1''), ?s')"
    by (simp add: tts_endpoint_def text_missing_def strip_def isspace_def
          JobManager_get_queue_size_def JobManager_add_job_def)
  note main = tts_endpoint_blank_text_and_trimming
  from main [of ?blank "[CHR '' '', CHR 0x09, CHR 0x0A]" ?s "''j1''" 0] blank
  have a: "tts_endpoint ?s ?blank ''j1'' 0 = (Inl (HTTPException 400 Text_is_required), ?s)"
    by blast
  from main [of ?req "[]" ?s "''j1''" 0 "''j1''" ?s'] run
  have b: "\<exists>raw m'. model_text ?req = Some raw \<and> job_manager ?s' = Some m' \<and>
         map_option (\<lambda>job. text' (request job)) (map_of (jobs m') ''j1'') = Some (strip raw)"
    by blast
  from a run b show ?thesis by blast
qed


text \<open>
  C1 as stated fails at the text \<open>" "\<close>. It is not empty, yet the handler answers 400 and
  never reaches the capacity test: both with a queue size within the limit, where C1
  has the submission admitted, and with one above it, where C1 has the 503.
\<close>

theorem tts_endpoint_nonempty_blank_counterexample:
  "model_text (TTSRequestModel (Some '' '') ''en'' 0 0 0) = Some '' '' \<and> '' '' \<noteq> [] \<and>
   JobManager_get_queue_size \<lparr>max_concurrent = 2, jobs = [], queue = []\<rparr>
     \<le> max_concurrent \<lparr>max_concurrent = 2, jobs = [], queue = []\<rparr> * 2 \<and>
   tts_endpoint \<lparr>job_manager = Some \<lparr>max_concurrent = 2, jobs = [], queue = []\<rparr>, fs = []\<rparr>
     (TTSRequestModel (Some '' '') ''en'' 0 0 0) ''j1'' 0
   = (Inl (HTTPException 400 Text_is_required),
      \<lparr>job_manager = Some \<lparr>max_concurrent = 2, jobs = [], queue = []\<rparr>, fs = []\<rparr>) \<and>
   JobManager_get_queue_size
     \<lparr>max_concurrent = 0,
      jobs = [(''j0'', \<lparr>request = \<lparr>text' = ''hi'', voice = ''en'', pitch = 0, speed = 0,
                 volume = 0\<rparr>, status = QUEUED, created_at = 0\<rparr>)],
      queue = [''j0'']\<rparr>
     > max_concurrent
        \<lparr>max_concurrent = 0,
         jobs = [(''j0'', \<lparr>request = \<lparr>text' = ''hi'', voice = ''en'', pitch = 0, speed = 0,
                    volume = 0\<rparr>, status = QUEUED, created_at = 0\<rparr>)],
         queue = [''j0'']\<rparr> * 2 \<and>
   fst (tts_endpoint
     \<lparr>job_manager = Some
        \<lparr>max_concurrent = 0,
         jobs = [(''j0'', \<lparr>request = \<lparr>text' = ''hi'', voice = ''en'', pitch = 0, speed = 0,
                    volume = 0\<rparr>, status = QUEUED, created_at = 0\<rparr>)],
         queue = [''j0'']\<rparr>, fs = []\<rparr>
     (TTSRequestModel (Some '' '') ''en'' 0 0 0) ''j1'' 1)
   = Inl (HTTPException 400 Text_is_required)"
  by (simp add: tts_endpoint_def text_missing_def strip_def isspace_def
        JobManager_get_queue_size_def)

text \<open>
  C1, amended. For a submission whose text holds a character that is not white space,
  to a router whose job manager is \<open>m\<close>: if the queue size exceeds
  \<open>max_concurrent * 2\<close>, the handler answers 503 and leaves the state as it was; if the
  queue size is at most \<open>max_concurrent * 2\<close>, the handler returns the job identifier,
  and the manager it leaves holds a QUEUED record under it.
\<close>

theorem tts_endpoint_admission_control:
  assumes "model_text req = Some t" and "\<not> list_all isspace t" and "job_manager s = Some m"
  shows "(max_concurrent m * 2 < JobManager_get_queue_size m \<longrightarrow>
            tts_endpoint s req fresh_id now =
              (Inl (HTTPException 503 (Server_at_capacity (JobManager_get_queue_size m))), s))
       \<and> (JobManager_get_queue_size m \<le> max_concurrent m * 2 \<longrightarrow>
            (\<exists>m'. tts_endpoint s req fresh_id now =
                     (Inr (TTSResponseModel fresh_id), s\<lparr>job_manager := Some m'\<rparr>) \<and>
                  map_option status (map_of (jobs m') fresh_id) = Some QUEUED))"
proof -
  from assms(2) have ne: "strip t \<noteq> []"
    by (simp add: strip_eq_Nil_iff)
  show ?thesis
  proof (intro conjI impI)
    assume "max_concurrent m * 2 < JobManager_get_queue_size m"
    with assms(1) ne assms(3)
    show "tts_endpoint s req fresh_id now =
            (Inl (HTTPException 503 (Server_at_capacity (JobManager_get_queue_size m))), s)"
      by (rule tts_endpoint_at_capacity)
  next
    assume "JobManager_get_queue_size m \<le> max_concurrent m * 2"
    let ?m' = "snd (JobManager_add_job m
                 \<lparr>text' = strip t, voice = model_voice req, pitch = model_pitch req,
                  speed = model_speed req, volume = model_volume req\<rparr> fresh_id now)"
    from assms(1) ne assms(3) \<open>JobManager_get_queue_size m \<le> max_concurrent m * 2\<close>
    have "tts_endpoint s req fresh_id now =
           (Inr (TTSResponseModel fresh_id), s\<lparr>job_manager := Some ?m'\<rparr>)"
      by (rule tts_endpoint_admits)
    moreover have "map_option status (map_of (jobs ?m') fresh_id) = Some QUEUED"
      by (simp add: add_job_lookup)
    ultimately show "\<exists>m'. tts_endpoint s req fresh_id now =
                     (Inr (TTSResponseModel fresh_id), s\<lparr>job_manager := Some m'\<rparr>) \<and>
                  map_option status (map_of (jobs m') fresh_id) = Some QUEUED"
      by blast
  qed
qed

theorem tts_endpoint_admission_control_witness:
  "tts_endpoint
     \<lparr>job_manager = Some
        \<lparr>max_concurrent = 0,
         jobs = [(''j0'', \<lparr>request = \<lparr>text' = ''hi'', voice = ''en'', pitch = 0, speed = 0,
                    volume = 0\<rparr>, status = QUEUED, created_at = 0\<rparr>)],
         queue = [''j0'']\<rparr>, fs = []\<rparr>
     (TTSRequestModel (Some ''hello'') ''en'' 0 0 0) ''j1'' 1
   = (Inl (HTTPException 503 (Server_at_capacity 1)),
      \<lparr>job_manager = Some
        \<lparr>max_concurrent = 0,
         jobs = [(''j0'', \<lparr>request = \<lparr>text' = ''hi'', voice = ''en'', pitch = 0, speed = 0,
                    volume = 0\<rparr>, status = QUEUED, created_at = 0\<rparr>)],
         queue = [''j0'']\<rparr>, fs = []\<rparr>)
   \<and> (\<exists>m'. tts_endpoint
          \<lparr>job_manager = Some \<lparr>max_concurrent = 2, jobs = [], queue = []\<rparr>, fs = []\<rparr>
          (TTSRequestModel (Some ''hello'') ''en'' 0 0 0) ''j1'' 1
        = (Inr (TTSResponseModel ''j1''), \<lparr>job_manager = Some m', fs = []\<rparr>) \<and>
        map_option status (map_of (jobs m') ''j1'') = Some QUEUED)"
proof -
  let ?req = "TTSRequestModel (Some ''hello'') ''en'' 0 0 0"
  let ?full = "\<lparr>max_concurrent = 0,
         jobs = [(''j0'', \<lparr>request = \<lparr>text' = ''hi'', voice = ''en'', pitch = 0, speed = 0,
                    volume = 0\<rparr>, status = QUEUED, created_at = 0\<rparr>)],
         queue = [''j0'']\<rparr>"
  let ?idle = "\<lparr>max_concurrent = 2, jobs = [], queue = []\<rparr>"
  have t: "model_text ?req = Some ''hello''" and nb: "\<not> list_all isspace ''hello''"
    by (simp_all add: isspace_def)
  have over: "max_concurrent ?full * 2 < JobManager_get_queue_size ?full"
    and size: "JobManager_get_queue_size ?full = 1"
    and under: "JobManager_get_queue_size ?idle \<le> max_concurrent ?idle * 2"
    by (simp_all add: JobManager_get_queue_size_def)
  have a: "job_manager \<lparr>job_manager = Some ?full, fs = []\<rparr> = Some ?full"
    and b: "job_manager \<lparr>job_manager = Some ?idle, fs = []\<rparr> = Some ?idle"
    by simp_all
  from tts_endpoint_admission_control [OF t nb a, of "''j1''" 1] over size
  have 1: "tts_endpoint \<lparr>job_manager = Some ?full, fs = []\<rparr> ?req ''j1'' 1 =
             (Inl (HTTPException 503 (Server_at_capacity 1)), \<lparr>job_manager = Some ?full, fs = []\<rparr>)"
    by simp
  from tts_endpoint_admission_control [OF t nb b, of "''j1''" 1] under
  have 2: "\<exists>m'. tts_endpoint \<lparr>job_manager = Some ?idle, fs = []\<rparr> ?req ''j1'' 1
        = (Inr (TTSResponseModel ''j1''), \<lparr>job_manager = Some m', fs = []\<rparr>) \<and>
        map_option status (map_of (jobs m') ''j1'') = Some QUEUED"
    by simp
  from 1 2 show ?thesis by blast
qed

subsection \<open>Status, fetch and delete\<close>

lemma os_path_exists_iff: "os_path_exists files p \<longleftrightarrow> map_of files p \<noteq> None"
  by (simp add: os_path_exists_def split: option.split)

lemma get_job_status_artifact:
  "os_path_exists (fs s) (audio_path rt job_id) \<Longrightarrow>
   get_job_status rt s job_id = Inr (JobStatusResponse job_id ''completed'' ''Audio is ready'')"
  by (simp add: get_job_status_def)

lemma get_audio_file:
  "map_of (fs s) (audio_path rt job_id) = Some (File b) \<Longrightarrow>
   get_audio rt s job_id =
     (if length b < 100 then Inl (HTTPException 422 (Audio_incomplete job_id))
      else Inr \<lparr>content = b, media_type = ''audio/mpeg'',
                headers = [(''Cache-Control'', ''public, max-age=86400''),
                           (''ETag'', etag rt job_id)]\<rparr>)"
  by (auto simp: get_audio_def os_path_exists_iff read_bytes_def)

text \<open>
  C2. The status lookup tests the audio file first: when it exists the answer is
  \<open>completed\<close>, whatever the manager holds, also a record that is still PROCESSING.
  Without an audio file, a router whose job manager is \<open>m\<close> answers with the status
  of the record that \<open>m\<close> holds for the job, and with the 404 error when \<open>m\<close> holds
  none.
\<close>

theorem get_job_status_artifact_first:
  "(os_path_exists (fs s) (audio_path rt job_id) \<longrightarrow>
      get_job_status rt s job_id =
        Inr (JobStatusResponse job_id (JobStatus_value COMPLETED) ''Audio is ready''))
   \<and> (\<not> os_path_exists (fs s) (audio_path rt job_id) \<and> job_manager s = Some m \<and>
        map_of (jobs m) job_id = Some job \<longrightarrow>
      get_job_status rt s job_id =
        Inr (JobStatusResponse job_id (JobStatus_value (status job))
               (if status job = PROCESSING then ''Audio is being processed''
                else ''Audio is ready'')))
   \<and> (\<not> os_path_exists (fs s) (audio_path rt job_id) \<and> job_manager s = Some m \<and>
        map_of (jobs m) job_id = None \<longrightarrow>
      get_job_status rt s job_id = Inl (HTTPException 404 (Job_not_found job_id)))"
  by (simp add: get_job_status_def JobManager_get_job_status_def)

lemma example_paths:
  "audio_path example_runtime ''a'' = ''audio/a.mp3''"
  "audio_path example_runtime ''b'' = ''audio/b.mp3''"
  "audio_path example_runtime ''c'' = ''audio/c.mp3''"
  by (simp_all add: audio_path_def os_path_join_def example_runtime_def)

lemma example_files:
  "map_of (fs example_state) ''audio/a.mp3'' = Some (File [1, 2, 3])"
  "map_of (fs example_state) ''audio/b.mp3'' = None"
  "map_of (fs example_state) ''audio/c.mp3'' = Some (File (replicate 100 0))"
  by (simp_all add: example_state_def)

lemma example_jobs:
  "job_manager example_state = Some example_manager"
  "map_of (jobs example_manager) ''a'' =
     Some \<lparr>request = \<lparr>text' = ''first'', voice = ''en'', pitch = 0, speed = 0, volume = 0\<rparr>,
           status = PROCESSING, created_at = 0\<rparr>"
  "map_of (jobs example_manager) ''b'' =
     Some \<lparr>request = \<lparr>text' = ''second'', voice = ''en'', pitch = 0, speed = 0, volume = 0\<rparr>,
           status = QUEUED, created_at = 1\<rparr>"
  "map_of (jobs example_manager) ''c'' = None"
  by (simp_all add: example_state_def example_manager_def)

theorem get_job_status_artifact_first_witness:
  "get_job_status example_runtime example_state ''a'' =
     Inr (JobStatusResponse ''a'' ''completed'' ''Audio is ready'')
   \<and> map_option status (map_of (jobs example_manager) ''a'') = Some PROCESSING
   \<and> get_job_status example_runtime example_state ''b'' =
       Inr (JobStatusResponse ''b'' ''queued'' ''Audio is ready'')
   \<and> get_job_status example_runtime (example_state\<lparr>fs := []\<rparr>) ''c'' =
       Inl (HTTPException 404 (Job_not_found ''c''))"
proof -
  note main = get_job_status_artifact_first [where rt = example_runtime and m = example_manager]
  have "get_job_status example_runtime example_state ''a'' =
          Inr (JobStatusResponse ''a'' ''completed'' ''Audio is ready'')"
    using main [of example_state "''a''"]
    by (simp add: os_path_exists_iff example_paths example_files)
  moreover have "get_job_status example_runtime example_state ''b'' =
       Inr (JobStatusResponse ''b'' ''queued'' ''Audio is ready'')"
    using main [of example_state "''b''", where job = "the (map_of (jobs example_manager) ''b'')"]
    by (simp add: os_path_exists_iff example_paths example_files example_jobs)
  moreover have "get_job_status example_runtime (example_state\<lparr>fs := []\<rparr>) ''c'' =
       Inl (HTTPException 404 (Job_not_found ''c''))"
    using main [of "example_state\<lparr>fs := []\<rparr>" "''c''"]
    by (simp add: os_path_exists_iff example_jobs)
  ultimately show ?thesis
    by (simp add: example_jobs)
qed

lemma example_hash_numeral: "str_int (str_hash example_runtime ''c'') = ''42''"
  by code_simp

text \<open>
  C3 as stated fails in its last part: the tag does not validate the content. Two
  fetches of the job \<open>c\<close>, from file systems that hold different bytes for it, return
  different bodies under the same ETag \<open>"42"\<close>.
\<close>

theorem get_audio_tag_ignores_content_counterexample:
  "get_audio example_runtime example_state ''c'' =
     Inr \<lparr>content = replicate 100 0, media_type = ''audio/mpeg'',
          headers = [(''Cache-Control'', ''public, max-age=86400''),
                     (''ETag'', [CHR 0x22, CHR ''4'', CHR ''2'', CHR 0x22])]\<rparr> \<and>
   get_audio example_runtime
       (example_state\<lparr>fs := [(''audio/c.mp3'', File (replicate 100 1))]\<rparr>) ''c'' =
     Inr \<lparr>content = replicate 100 1, media_type = ''audio/mpeg'',
          headers = [(''Cache-Control'', ''public, max-age=86400''),
                     (''ETag'', [CHR 0x22, CHR ''4'', CHR ''2'', CHR 0x22])]\<rparr> \<and>
   replicate 100 (0 :: 8 word) \<noteq> replicate 100 1"
proof (intro conjI)
  show "get_audio example_runtime example_state ''c'' =
     Inr \<lparr>content = replicate 100 0, media_type = ''audio/mpeg'',
          headers = [(''Cache-Control'', ''public, max-age=86400''),
                     (''ETag'', [CHR 0x22, CHR ''4'', CHR ''2'', CHR 0x22])]\<rparr>"
    using get_audio_file [of example_state example_runtime "''c''" "replicate 100 0"]
    by (simp add: example_paths example_files etag_def example_hash_numeral)
  show "get_audio example_runtime
       (example_state\<lparr>fs := [(''audio/c.mp3'', File (replicate 100 1))]\<rparr>) ''c'' =
     Inr \<lparr>content = replicate 100 1, media_type = ''audio/mpeg'',
          headers = [(''Cache-Control'', ''public, max-age=86400''),
                     (''ETag'', [CHR 0x22, CHR ''4'', CHR ''2'', CHR 0x22])]\<rparr>"
    using get_audio_file [of "example_state\<lparr>fs := [(''audio/c.mp3'', File (replicate 100 1))]\<rparr>"
            example_runtime "''c''" "replicate 100 1"]
    by (simp add: example_paths etag_def example_hash_numeral)
  have "replicate 100 (0 :: 8 word) ! 0 \<noteq> replicate 100 1 ! 0"
    by simp
  then show "replicate 100 (0 :: 8 word) \<noteq> replicate 100 1"
    by metis
qed

text \<open>
  C3, amended. The audio fetch answers 404 when no file exists at the audio path; 422
  when the file there holds fewer than 100 bytes (none included); and otherwise the
  response whose body is the bytes of the file, with the cache directive
  \<open>public, max-age=86400\<close> and, as ETag, the decimal numeral of \<open>hash(job_id)\<close> between
  double quotes: a tag made from the job identifier, not from the content.
\<close>

theorem get_audio_cases:
  "(\<not> os_path_exists (fs s) (audio_path rt job_id) \<longrightarrow>
      get_audio rt s job_id = Inl (HTTPException 404 (Audio_not_found_or_not_ready job_id)))
   \<and> (map_of (fs s) (audio_path rt job_id) = Some (File b) \<and> length b < 100 \<longrightarrow>
      get_audio rt s job_id = Inl (HTTPException 422 (Audio_incomplete job_id)))
   \<and> (map_of (fs s) (audio_path rt job_id) = Some (File b) \<and> 100 \<le> length b \<longrightarrow>
      get_audio rt s job_id =
        Inr \<lparr>content = b, media_type = ''audio/mpeg'',
             headers = [(''Cache-Control'', ''public, max-age=86400''),
                        (''ETag'', CHR 0x22 # str_int (str_hash rt job_id) @ [CHR 0x22])]\<rparr>)"
  by (simp add: get_audio_file etag_def) (simp add: get_audio_def)

theorem get_audio_cases_witness:
  "get_audio example_runtime example_state ''b'' =
     Inl (HTTPException 404 (Audio_not_found_or_not_ready ''b''))
   \<and> get_audio example_runtime example_state ''a'' =
       Inl (HTTPException 422 (Audio_incomplete ''a''))
   \<and> get_audio example_runtime example_state ''c'' =
       Inr \<lparr>content = replicate 100 0, media_type = ''audio/mpeg'',
            headers = [(''Cache-Control'', ''public, max-age=86400''),
                       (''ETag'', [CHR 0x22, CHR ''4'', CHR ''2'', CHR 0x22])]\<rparr>"
proof -
  note main = get_audio_cases [where rt = example_runtime and s = example_state]
  have "get_audio example_runtime example_state ''b'' =
     Inl (HTTPException 404 (Audio_not_found_or_not_ready ''b''))"
    using main [of "''b''"]
    by (simp add: os_path_exists_iff example_paths example_files)
  moreover have "get_audio example_runtime example_state ''a'' =
       Inl (HTTPException 422 (Audio_incomplete ''a''))"
    using main [of "''a''" "[1, 2, 3]"]
    by (simp add: example_paths example_files)
  moreover have "get_audio example_runtime example_state ''c'' =
       Inr \<lparr>content = replicate 100 0, media_type = ''audio/mpeg'',
            headers = [(''Cache-Control'', ''public, max-age=86400''),
                       (''ETag'', [CHR 0x22, CHR ''4'', CHR ''2'', CHR 0x22])]\<rparr>"
    using main [of "''c''" "replicate 100 0"]
    by (simp add: example_paths example_files example_hash_numeral)
  ultimately show ?thesis
    by (intro conjI)
qed

text \<open>
  C9. When the file at the audio path of a job holds fewer than 100 bytes, the status
  lookup answers \<open>completed\<close> (it tests only that the file exists) and the audio fetch
  for the same job answers 422.
\<close>

theorem status_and_audio_disagree_on_short_file:
  "map_of (fs s) (audio_path rt job_id) = Some (File b) \<Longrightarrow> length b < 100 \<Longrightarrow>
   get_job_status rt s job_id =
     Inr (JobStatusResponse job_id (JobStatus_value COMPLETED) ''Audio is ready'') \<and>
   get_audio rt s job_id = Inl (HTTPException 422 (Audio_incomplete job_id))"
  by (simp add: get_job_status_artifact os_path_exists_iff get_audio_file)

theorem status_and_audio_disagree_on_short_file_witness:
  "map_of (fs example_state) (audio_path example_runtime ''a'') = Some (File [1, 2, 3]) \<and>
   length [1, 2, 3 :: 8 word] < 100 \<and>
   get_job_status example_runtime example_state ''a'' =
     Inr (JobStatusResponse ''a'' ''completed'' ''Audio is ready'') \<and>
   get_audio example_runtime example_state ''a'' = Inl (HTTPException 422 (Audio_incomplete ''a''))"
  using status_and_audio_disagree_on_short_file
    [of example_state example_runtime "''a''" "[1, 2, 3]"]
  by (simp add: example_paths example_files)


lemma delete_audio_missing:
  "\<not> os_path_exists (fs s) (audio_path rt job_id) \<Longrightarrow>
   delete_audio rt s job_id tasks = (Inl (HTTPException 404 (Audio_not_found job_id)), s, tasks)"
  by (simp add: delete_audio_def)

lemma delete_audio_file:
  "map_of (fs s) (audio_path rt job_id) = Some (File b) \<Longrightarrow> job_manager s = Some m \<Longrightarrow>
   delete_audio rt s job_id tasks =
     (Inr (Audio_deleted_successfully job_id),
      s\<lparr>fs := AList.delete (audio_path rt job_id) (fs s)\<rparr>,
      (case map_of (jobs m) job_id of
         None \<Rightarrow> tasks
       | Some job \<Rightarrow> tasks @ [cleanup_job_task job_id]))"
  by (simp add: delete_audio_def os_path_exists_iff os_remove_def)

lemma delete_audio_Inr:
  assumes "delete_audio rt s job_id tasks = (Inr ok, s', tasks')"
  shows "\<exists>b m. map_of (fs s) (audio_path rt job_id) = Some (File b) \<and> job_manager s = Some m"
  using assms
  by (auto simp: delete_audio_def os_remove_def
           split: if_splits option.splits node.splits sum.splits)

lemma cleanup_job_removes:
  "map_of (jobs (JobManager_cleanup_job m job_id)) job_id = None"
  by (simp add: JobManager_cleanup_job_def delete_conv')

text \<open>
  C6. The delete answers 404, and changes nothing, when no file exists at the audio
  path. When a regular file is there (and the router has its job manager) the delete
  succeeds. Whenever it succeeds, the file is gone, the handler itself has left the job
  manager as it was, and the background tasks are those it was given, followed by the
  clean-up of the job exactly when the manager holds a record for it; running that
  task afterwards removes the record.
\<close>

theorem delete_audio_cases:
  "(\<not> os_path_exists (fs s) (audio_path rt job_id) \<longrightarrow>
      delete_audio rt s job_id tasks =
        (Inl (HTTPException 404 (Audio_not_found job_id)), s, tasks))
   \<and> (map_of (fs s) (audio_path rt job_id) = Some (File b) \<and> job_manager s = Some m \<longrightarrow>
      (\<exists>s' tasks'. delete_audio rt s job_id tasks =
         (Inr (Audio_deleted_successfully job_id), s', tasks')))
   \<and> (delete_audio rt s job_id tasks = (Inr ok, s', tasks') \<longrightarrow>
      \<not> os_path_exists (fs s') (audio_path rt job_id) \<and>
      job_manager s' = job_manager s \<and>
      (\<exists>m. job_manager s = Some m \<and>
         (map_of (jobs m) job_id = None \<longrightarrow> tasks' = tasks) \<and>
         (map_of (jobs m) job_id \<noteq> None \<longrightarrow>
            tasks' = tasks @ [cleanup_job_task job_id] \<and>
            (\<exists>m'. job_manager (run_task s' (cleanup_job_task job_id)) = Some m' \<and>
                  map_of (jobs m') job_id = None))))"
proof (intro conjI impI)
  assume "\<not> os_path_exists (fs s) (audio_path rt job_id)"
  then show "delete_audio rt s job_id tasks =
        (Inl (HTTPException 404 (Audio_not_found job_id)), s, tasks)"
    by (rule delete_audio_missing)
next
  assume "map_of (fs s) (audio_path rt job_id) = Some (File b) \<and> job_manager s = Some m"
  then show "\<exists>s' tasks'. delete_audio rt s job_id tasks =
         (Inr (Audio_deleted_successfully job_id), s', tasks')"
    by (simp add: delete_audio_file)
next
  assume run: "delete_audio rt s job_id tasks = (Inr ok, s', tasks')"
  from delete_audio_Inr [OF run] obtain b0 m0 where
    reg: "map_of (fs s) (audio_path rt job_id) = Some (File b0)" and
    man: "job_manager s = Some m0"
    by blast
  from run delete_audio_file [OF reg man, of tasks] have
    s': "s' = s\<lparr>fs := AList.delete (audio_path rt job_id) (fs s)\<rparr>" and
    tasks': "tasks' = (case map_of (jobs m0) job_id of
                         None \<Rightarrow> tasks
                       | Some job \<Rightarrow> tasks @ [cleanup_job_task job_id])"
    by simp_all
  show "\<not> os_path_exists (fs s') (audio_path rt job_id)"
    by (simp add: s' os_path_exists_iff delete_conv')
  show "job_manager s' = job_manager s"
    by (simp add: s')
  have "job_manager (run_task s' (cleanup_job_task job_id)) =
          Some (JobManager_cleanup_job m0 job_id)"
    by (simp add: run_task_def s' man)
  then show "\<exists>m. job_manager s = Some m \<and>
         (map_of (jobs m) job_id = None \<longrightarrow> tasks' = tasks) \<and>
         (map_of (jobs m) job_id \<noteq> None \<longrightarrow>
            tasks' = tasks @ [cleanup_job_task job_id] \<and>
            (\<exists>m'. job_manager (run_task s' (cleanup_job_task job_id)) = Some m' \<and>
                  map_of (jobs m') job_id = None))"
    using man tasks' by (auto simp: cleanup_job_removes)
qed

theorem delete_audio_cases_witness:
  "delete_audio example_runtime example_state ''b'' [] =
     (Inl (HTTPException 404 (Audio_not_found ''b'')), example_state, [])
   \<and> delete_audio example_runtime example_state ''a'' [] =
       (Inr (Audio_deleted_successfully ''a''),
        example_state\<lparr>fs := [(''audio/c.mp3'', File (replicate 100 0))]\<rparr>,
        [cleanup_job_task ''a''])
   \<and> delete_audio example_runtime example_state ''c'' [] =
       (Inr (Audio_deleted_successfully ''c''),
        example_state\<lparr>fs := [(''audio/a.mp3'', File [1, 2, 3])]\<rparr>,
        [])
   \<and> (\<exists>m'. job_manager (run_task (example_state\<lparr>fs := [(''audio/c.mp3'', File (replicate 100 0))]\<rparr>)
                (cleanup_job_task ''a'')) = Some m' \<and>
            map_of (jobs m') ''a'' = None)"
proof -
  note main = delete_audio_cases [where rt = example_runtime and s = example_state
      and tasks = "[]" and m = example_manager]
  let ?sa = "example_state\<lparr>fs := [(''audio/c.mp3'', File (replicate 100 0))]\<rparr>"
  let ?sc = "example_state\<lparr>fs := [(''audio/a.mp3'', File [1, 2, 3])]\<rparr>"
  have b: "delete_audio example_runtime example_state ''b'' [] =
     (Inl (HTTPException 404 (Audio_not_found ''b'')), example_state, [])"
    using main [of "''b''"]
    by (simp add: os_path_exists_iff example_paths example_files)
  have a: "delete_audio example_runtime example_state ''a'' [] =
       (Inr (Audio_deleted_successfully ''a''), ?sa, [cleanup_job_task ''a''])"
    by (simp add: delete_audio_file [OF _ example_jobs(1)] example_paths example_files
          example_jobs) (simp add: example_state_def)
  have c: "delete_audio example_runtime example_state ''c'' [] =
       (Inr (Audio_deleted_successfully ''c''), ?sc, [])"
    by (simp add: delete_audio_file [OF _ example_jobs(1)] example_paths example_files
          example_jobs) (simp add: example_state_def)
  have ex: "\<exists>s' tasks'. delete_audio example_runtime example_state ''a'' [] =
         (Inr (Audio_deleted_successfully ''a''), s', tasks')"
    using main [of "''a''" "[1, 2, 3]"]
    by (simp add: example_paths example_files example_jobs)
  have run: "\<exists>m'. job_manager (run_task ?sa (cleanup_job_task ''a'')) = Some m' \<and>
            map_of (jobs m') ''a'' = None"
    using main [of "''a''" _ "Audio_deleted_successfully ''a''" ?sa "[cleanup_job_task ''a'']"] a
    by (simp add: example_jobs)
  from a b c ex run show ?thesis
    by blast
qed

subsection \<open>The job listing\<close>

lemma sort_reverse_sorted: "sorted_wrt (\<lambda>x y. k y \<le> k x) (sort_reverse k xs)"
proof -
  have "sorted (map k (sort_key k (rev xs)))"
    by (rule sorted_sort_key)
  then have "sorted_wrt (\<lambda>x y. k x \<le> k y) (sort_key k (rev xs))"
    by (simp add: sorted_wrt_map)
  then show ?thesis
    by (simp add: sort_reverse_def sorted_wrt_rev)
qed

lemma set_sort_reverse: "set (sort_reverse k xs) = set xs"
  by (simp add: sort_reverse_def)

lemma active_jobs_loop_ids:
  "active_jobs_loop rt files items = Inr active \<Longrightarrow>
   map dict_job_id active =
     filter (\<lambda>job_id. \<not> os_path_exists files (audio_path rt job_id)) (map fst items)"
proof (induction items arbitrary: active)
  case Nil
  then show ?case by simp
next
  case (Cons item items)
  obtain job_id info where item: "item = (job_id, info)"
    by (cases item)
  show ?case
  proof (cases "os_path_exists files (audio_path rt job_id)")
    case True
    with Cons item show ?thesis by simp
  next
    case False
    with Cons.prems item obtain rest where
      "active_jobs_loop rt files items = Inr rest" and "dict_job_id (hd active) = job_id"
      and "active = hd active # rest"
      by (auto split: sum.splits)
    with Cons.IH [of rest] False item show ?thesis
      by (metis (no_types, lifting) filter.simps(2) fst_conv list.simps(9))
  qed
qed

lemma active_jobs_loop_total:
  "list_all (\<lambda>(job_id, info). \<exists>c. fromtimestamp_isoformat rt (created_at info) = Inr c) items \<Longrightarrow>
   \<exists>active. active_jobs_loop rt files items = Inr active"
proof (induction items)
  case Nil
  then show ?case by simp
next
  case (Cons item items)
  obtain job_id info where item: "item = (job_id, info)"
    by (cases item)
  from Cons obtain rest where rest: "active_jobs_loop rt files items = Inr rest"
    by auto
  from Cons.prems item obtain c where "fromtimestamp_isoformat rt (created_at info) = Inr c"
    by auto
  with rest item show ?case
    by simp
qed

lemma endswith_take_drop: "endswith f suffix \<Longrightarrow> take (length f - length suffix) f @ suffix = f"
  by (metis append_take_drop_id endswith_def)

lemma os_listdir_path:
  "f \<in> set (os_listdir files d) \<Longrightarrow> map_of files (os_path_join d f) \<noteq> None"
  by (auto simp: os_listdir_def map_of_eq_None_iff)

lemma load_jobs_artifact:
  assumes "c \<in> set (load_jobs rt files)"
  shows "os_path_exists files (audio_path rt (dict_job_id c))"
proof -
  from assms obtain f where f: "f \<in> set (os_listdir files (AUDIO_DIR rt))"
    and e: "endswith f ''.mp3''" and c: "c = completed_job rt f"
    by (auto simp: load_jobs_def)
  from e have "take (length f - length ''.mp3'') f @ ''.mp3'' = f"
    by (rule endswith_take_drop)
  moreover have "length ''.mp3'' = 4"
    by simp
  ultimately have "take (length f - 4) f @ ''.mp3'' = f"
    by (simp only:)
  then have "audio_path rt (dict_job_id c) = os_path_join (AUDIO_DIR rt) f"
    by (simp add: c completed_job_def audio_path_def Let_def)
  with os_listdir_path [OF f] show ?thesis
    by (simp add: os_path_exists_iff)
qed


lemma get_all_jobs_Inr:
  "get_all_jobs rt s = Inr listing \<Longrightarrow>
   \<exists>active. active_jobs_of rt s = Inr active \<and>
     listing = take 50 (sort_reverse created_at_key (load_jobs rt (fs s) @ active))"
  by (auto simp: get_all_jobs_def split: sum.splits)

lemma active_jobs_of_ids:
  "active_jobs_of rt s = Inr active \<Longrightarrow>
   map dict_job_id active =
     filter (\<lambda>job_id. \<not> os_path_exists (fs s) (audio_path rt job_id))
       (case job_manager s of None \<Rightarrow> [] | Some m \<Rightarrow> map fst (jobs m))"
  by (auto simp: active_jobs_of_def active_jobs_loop_ids split: option.splits)

text \<open>
  What the handler does guarantee for the listing: at most 50 entries, in an order in
  which the sort key (the \<open>created_at\<close> string of the entry, or the empty string when it
  has none) never increases; and a listing is returned whenever the conversion of the
  creation times of the manager's jobs does not raise.
\<close>

lemma get_all_jobs_capped_and_key_sorted:
  assumes "get_all_jobs rt s = Inr listing"
  shows "length listing \<le> 50"
    and "sorted_wrt (\<lambda>x y. created_at_key y \<le> created_at_key x) listing"
proof -
  from get_all_jobs_Inr [OF assms] obtain active where
    l: "listing = take 50 (sort_reverse created_at_key (load_jobs rt (fs s) @ active))"
    by blast
  show "length listing \<le> 50"
    by (simp add: l)
  show "sorted_wrt (\<lambda>x y. created_at_key y \<le> created_at_key x) listing"
    unfolding l by (rule sorted_wrt_take) (rule sort_reverse_sorted)
qed

lemma get_all_jobs_returns:
  assumes "case job_manager s of
             None \<Rightarrow> True
           | Some m \<Rightarrow>
               list_all (\<lambda>(job_id, info). \<exists>c. fromtimestamp_isoformat rt (created_at info) = Inr c)
                 (jobs m)"
  shows "\<exists>listing. get_all_jobs rt s = Inr listing"
proof -
  from assms have "\<exists>active. active_jobs_of rt s = Inr active"
    by (simp add: active_jobs_of_def active_jobs_loop_total split: option.splits)
  then show ?thesis
    by (auto simp: get_all_jobs_def)
qed

text \<open>
  C7. Whenever the listing is returned, it is the first 50 entries of the sorted merge
  of the completed jobs and the active jobs, where: the active jobs are, in the order of
  the manager's table, exactly its jobs that have no audio file, so a job of the table
  that has one is not among them; every completed job has an audio file; and hence no
  job identifier is both that of a completed and that of an active entry.
\<close>

theorem get_all_jobs_active_without_artifact:
  "get_all_jobs rt s = Inr listing \<Longrightarrow>
   \<exists>active.
     active_jobs_of rt s = Inr active \<and>
     listing = take 50 (sort_reverse created_at_key (load_jobs rt (fs s) @ active)) \<and>
     map dict_job_id active =
       filter (\<lambda>job_id. \<not> os_path_exists (fs s) (audio_path rt job_id))
         (case job_manager s of None \<Rightarrow> [] | Some m \<Rightarrow> map fst (jobs m)) \<and>
     (\<forall>a \<in> set active. \<not> os_path_exists (fs s) (audio_path rt (dict_job_id a))) \<and>
     (\<forall>c \<in> set (load_jobs rt (fs s)). os_path_exists (fs s) (audio_path rt (dict_job_id c))) \<and>
     dict_job_id ` set (load_jobs rt (fs s)) \<inter> dict_job_id ` set active = {}"
proof -
  assume "get_all_jobs rt s = Inr listing"
  from get_all_jobs_Inr [OF this] obtain active where
    a: "active_jobs_of rt s = Inr active" and
    l: "listing = take 50 (sort_reverse created_at_key (load_jobs rt (fs s) @ active))"
    by blast
  note ids = active_jobs_of_ids [OF a]
  have none: "\<forall>a \<in> set active. \<not> os_path_exists (fs s) (audio_path rt (dict_job_id a))"
  proof
    fix x assume "x \<in> set active"
    then have "dict_job_id x \<in> set (map dict_job_id active)"
      by simp
    then show "\<not> os_path_exists (fs s) (audio_path rt (dict_job_id x))"
      unfolding ids by simp
  qed
  have all: "\<forall>c \<in> set (load_jobs rt (fs s)). os_path_exists (fs s) (audio_path rt (dict_job_id c))"
    by (simp add: load_jobs_artifact)
  from none all
  have "dict_job_id ` set (load_jobs rt (fs s)) \<inter> dict_job_id ` set active = {}"
    by auto
  with a l ids none all show ?thesis
    by blast
qed

lemma example_load_jobs:
  "load_jobs example_runtime (fs example_state) =
     [\<lparr>dict_job_id = ''a'', dict_status = ''completed'',
       dict_created_at = Some ''2024-04-30T09:00:00'', dict_audio_exists = True,
       dict_text = None\<rparr>,
      \<lparr>dict_job_id = ''c'', dict_status = ''completed'',
       dict_created_at = Some ''2024-04-30T09:00:00'', dict_audio_exists = True,
       dict_text = None\<rparr>]"
  by (simp add: load_jobs_def os_listdir_def basename_def os_path_join_def endswith_def
        completed_job_def example_state_def example_runtime_def)

lemma example_active_jobs:
  "active_jobs_of example_runtime example_state =
     Inr [\<lparr>dict_job_id = ''b'', dict_status = ''queued'',
           dict_created_at = Some ''2024-05-01T10:00:01.500000'', dict_audio_exists = False,
           dict_text = Some ''second''\<rparr>]"
  by (simp add: active_jobs_of_def example_jobs example_manager_def example_paths
        os_path_exists_iff example_files)
     (simp add: example_runtime_def text_preview_def)


lemma example_get_all_jobs:
  "get_all_jobs example_runtime example_state =
     Inr [\<lparr>dict_job_id = ''b'', dict_status = ''queued'',
           dict_created_at = Some ''2024-05-01T10:00:01.500000'', dict_audio_exists = False,
           dict_text = Some ''second''\<rparr>,
          \<lparr>dict_job_id = ''a'', dict_status = ''completed'',
           dict_created_at = Some ''2024-04-30T09:00:00'', dict_audio_exists = True,
           dict_text = None\<rparr>,
          \<lparr>dict_job_id = ''c'', dict_status = ''completed'',
           dict_created_at = Some ''2024-04-30T09:00:00'', dict_audio_exists = True,
           dict_text = None\<rparr>]"
  by (simp add: get_all_jobs_def example_load_jobs example_active_jobs sort_reverse_def
        created_at_key_def)


theorem get_all_jobs_active_without_artifact_witness:
  "\<exists>listing active.
     get_all_jobs example_runtime example_state = Inr listing \<and>
     active_jobs_of example_runtime example_state = Inr active \<and>
     map fst (jobs example_manager) = [''a'', ''b''] \<and>
     os_path_exists (fs example_state) (audio_path example_runtime ''a'') \<and>
     map dict_job_id active = [''b''] \<and>
     map dict_job_id (load_jobs example_runtime (fs example_state)) = [''a'', ''c''] \<and>
     dict_job_id ` set (load_jobs example_runtime (fs example_state))
       \<inter> dict_job_id ` set active = {}"
proof -
  obtain listing where l: "get_all_jobs example_runtime example_state = Inr listing"
    using example_get_all_jobs by (rule that)
  from get_all_jobs_active_without_artifact [OF l] obtain active where
    a: "active_jobs_of example_runtime example_state = Inr active" and
    d: "dict_job_id ` set (load_jobs example_runtime (fs example_state))
          \<inter> dict_job_id ` set active = {}"
    by (elim exE conjE)
  from a have ids: "map dict_job_id active = [''b'']"
    unfolding example_active_jobs by (elim Inr_inject [elim_format]) (erule subst, simp)
  have tab: "map fst (jobs example_manager) = [''a'', ''b'']"
    by (simp add: example_manager_def)
  have ex: "os_path_exists (fs example_state) (audio_path example_runtime ''a'')"
    by (simp add: os_path_exists_iff example_paths example_files)
  have comp: "map dict_job_id (load_jobs example_runtime (fs example_state)) = [''a'', ''c'']"
    by (simp add: example_load_jobs)
  show ?thesis
    using l a tab ex ids comp d by (intro exI [of _ listing] exI [of _ active] conjI) assumption+
qed

text \<open>
  C4. The listing is meant to be sorted by creation time, newest first (the comment
  above the sort says so), but the handler sorts the \<open>created_at\<close> strings, which are
  local times. In the hour that local time repeats when daylight saving time ends, the
  older job has the later local time: with the job \<open>old\<close> created at 1698539400 and the
  job \<open>new\<close> created 1800 seconds later, in the zone Europe/Berlin, the listing has
  \<open>old\<close> before \<open>new\<close>.
\<close>

theorem get_all_jobs_lists_older_job_first:
  "map (\<lambda>(job_id, info). (job_id, created_at info)) (jobs dst_manager) =
     [(''old'', 1698539400), (''new'', 1698541200)] \<and>
   (1698539400 :: real) < 1698541200 \<and>
   fromtimestamp_isoformat dst_runtime 1698539400 = Inr ''2023-10-29T02:30:00'' \<and>
   fromtimestamp_isoformat dst_runtime 1698541200 = Inr ''2023-10-29T02:00:00'' \<and>
   get_all_jobs dst_runtime dst_state =
     Inr [\<lparr>dict_job_id = ''old'', dict_status = ''queued'',
           dict_created_at = Some ''2023-10-29T02:30:00'', dict_audio_exists = False,
           dict_text = Some ''first''\<rparr>,
          \<lparr>dict_job_id = ''new'', dict_status = ''queued'',
           dict_created_at = Some ''2023-10-29T02:00:00'', dict_audio_exists = False,
           dict_text = Some ''second''\<rparr>]"
proof (intro conjI)
  show "map (\<lambda>(job_id, info). (job_id, created_at info)) (jobs dst_manager) =
     [(''old'', 1698539400), (''new'', 1698541200)]"
    by (simp add: dst_manager_def)
  show "(1698539400 :: real) < 1698541200"
    by simp
  show "fromtimestamp_isoformat dst_runtime 1698539400 = Inr ''2023-10-29T02:30:00''"
    by (simp add: dst_runtime_def)
  show "fromtimestamp_isoformat dst_runtime 1698541200 = Inr ''2023-10-29T02:00:00''"
    by (simp add: dst_runtime_def)
  have completed: "load_jobs dst_runtime (fs dst_state) = []"
    by (simp add: load_jobs_def os_listdir_def dst_state_def)
  have active: "active_jobs_of dst_runtime dst_state =
     Inr [\<lparr>dict_job_id = ''old'', dict_status = ''queued'',
           dict_created_at = Some ''2023-10-29T02:30:00'', dict_audio_exists = False,
           dict_text = Some ''first''\<rparr>,
          \<lparr>dict_job_id = ''new'', dict_status = ''queued'',
           dict_created_at = Some ''2023-10-29T02:00:00'', dict_audio_exists = False,
           dict_text = Some ''second''\<rparr>]"
    by (simp add: active_jobs_of_def dst_state_def dst_manager_def os_path_exists_def
          dst_runtime_def text_preview_def)
  show "get_all_jobs dst_runtime dst_state =
     Inr [\<lparr>dict_job_id = ''old'', dict_status = ''queued'',
           dict_created_at = Some ''2023-10-29T02:30:00'', dict_audio_exists = False,
           dict_text = Some ''first''\<rparr>,
          \<lparr>dict_job_id = ''new'', dict_status = ''queued'',
           dict_created_at = Some ''2023-10-29T02:00:00'', dict_audio_exists = False,
           dict_text = Some ''second''\<rparr>]"
    by (simp add: get_all_jobs_def completed active sort_reverse_def created_at_key_def)
qed

subsection \<open>The ETag of the audio response\<close>

lemma of_char_digit_char: "d < 10 \<Longrightarrow> of_char (digit_char d) = 48 + d"
  by (simp add: digit_char_def)

lemma digit_value_digit_char: "d < 10 \<Longrightarrow> digit_value (digit_char d) = d"
  by (simp add: digit_value_def of_char_digit_char)

lemma digit_char_not_minus: "d < 10 \<Longrightarrow> digit_char d \<noteq> CHR ''-''"
proof
  assume "d < 10" and "digit_char d = CHR ''-''"
  then have "(of_char (CHR ''-'') :: nat) = 48 + d"
    using of_char_digit_char [of d] by simp
  then show False by simp
qed

lemma nat_of_digits_snoc:
  "nat_of_digits (ds @ [c]) = 10 * nat_of_digits ds + digit_value c"
  by (simp add: nat_of_digits_def)

lemma nat_of_digits_str_nat: "nat_of_digits (str_nat n) = n"
proof (induction n rule: str_nat.induct)
  case (1 n)
  show ?case
  proof (cases "n < 10")
    case True
    then show ?thesis
      by (simp add: str_nat.simps [of n] nat_of_digits_def digit_value_digit_char)
  next
    case False
    with "1" have "nat_of_digits (str_nat (n div 10)) = n div 10"
      by simp
    with False show ?thesis
      by (simp add: str_nat.simps [of n] nat_of_digits_snoc digit_value_digit_char)
  qed
qed

lemma str_nat_head: "\<exists>c ds. str_nat n = c # ds \<and> c \<noteq> CHR ''-''"
proof (induction n rule: str_nat.induct)
  case (1 n)
  show ?case
  proof (cases "n < 10")
    case True
    then show ?thesis
      by (simp add: str_nat.simps [of n] digit_char_not_minus)
  next
    case False
    with "1" obtain c ds where "str_nat (n div 10) = c # ds" and "c \<noteq> CHR ''-''"
      by blast
    with False show ?thesis
      by (simp add: str_nat.simps [of n])
  qed
qed

lemma int_of_str_str_int: "int_of_str (str_int i) = i"
proof (cases "i < 0")
  case True
  then show ?thesis
    by (simp add: str_int_def int_of_str_def nat_of_digits_str_nat)
next
  case False
  obtain c ds where s: "str_nat (nat i) = c # ds" and c: "c \<noteq> CHR ''-''"
    using str_nat_head by blast
  have "nat_of_digits (c # ds) = nat i"
    using nat_of_digits_str_nat [of "nat i"] by (simp only: s)
  with False c show ?thesis
    by (simp add: str_int_def int_of_str_def s)
qed

lemma str_int_inject: "str_int i = str_int j \<longleftrightarrow> i = j"
  by (metis int_of_str_str_int)

lemma etag_inject: "etag rt1 job_id = etag rt2 job_id \<longleftrightarrow> str_hash rt1 job_id = str_hash rt2 job_id"
  by (simp add: etag_def str_int_inject)

lemma get_audio_Inr_etag:
  "get_audio rt s job_id = Inr r \<Longrightarrow> map_of (headers r) ''ETag'' = Some (etag rt job_id)"
  by (auto simp: get_audio_def split: if_splits sum.splits)


text \<open>
  C8. The ETag of a successful fetch is the decimal numeral of \<open>hash(job_id)\<close> between
  double quotes, where \<open>hash\<close> is the string hash of the process that serves the fetch.
  Two fetches of the same job, whatever the two file systems hold for it, carry the same
  tag exactly when the hashes of the two serving processes agree on the job identifier:
  within one process the tag is a function of the job identifier alone, and between
  two processes whose hashes differ on it the tags differ.
\<close>

theorem get_audio_etag_follows_process_hash:
  "get_audio rt1 s1 job_id = Inr r1 \<Longrightarrow> get_audio rt2 s2 job_id = Inr r2 \<Longrightarrow>
   map_of (headers r1) ''ETag'' = Some (etag rt1 job_id) \<and>
   map_of (headers r2) ''ETag'' = Some (etag rt2 job_id) \<and>
   (map_of (headers r1) ''ETag'' = map_of (headers r2) ''ETag''
      \<longleftrightarrow> str_hash rt1 job_id = str_hash rt2 job_id)"
  by (simp add: get_audio_Inr_etag etag_inject)

lemma example_etags:
  "etag example_runtime ''c'' = [CHR 0x22, CHR ''4'', CHR ''2'', CHR 0x22]"
  "etag restarted_runtime ''c'' = [CHR 0x22, CHR ''-'', CHR ''8'', CHR 0x22]"
  by code_simp+

theorem get_audio_etag_follows_process_hash_witness:
  "\<exists>r1 r2.
     get_audio example_runtime example_state ''c'' = Inr r1 \<and>
     get_audio restarted_runtime example_state ''c'' = Inr r2 \<and>
     str_hash example_runtime ''c'' = 42 \<and>
     str_hash restarted_runtime ''c'' = - 8 \<and>
     map_of (headers r1) ''ETag'' = Some [CHR 0x22, CHR ''4'', CHR ''2'', CHR 0x22] \<and>
     map_of (headers r2) ''ETag'' = Some [CHR 0x22, CHR ''-'', CHR ''8'', CHR 0x22] \<and>
     map_of (headers r1) ''ETag'' \<noteq> map_of (headers r2) ''ETag''"
proof -
  have p: "audio_path restarted_runtime ''c'' = ''audio/c.mp3''"
    by (simp add: audio_path_def os_path_join_def restarted_runtime_def example_runtime_def)
  obtain r1 where r1: "get_audio example_runtime example_state ''c'' = Inr r1"
    by (simp add: get_audio_file [of example_state example_runtime "''c''" "replicate 100 0"]
          example_paths example_files)
  obtain r2 where r2: "get_audio restarted_runtime example_state ''c'' = Inr r2"
    by (simp add: get_audio_file [of example_state restarted_runtime "''c''" "replicate 100 0"]
          p example_files)
  have h1: "str_hash example_runtime ''c'' = 42"
    by (simp add: example_runtime_def)
  have h2: "str_hash restarted_runtime ''c'' = - 8"
    by (simp add: restarted_runtime_def)
  note main = get_audio_etag_follows_process_hash [OF r1 r2]
  from main have t1: "map_of (headers r1) ''ETag'' = Some [CHR 0x22, CHR ''4'', CHR ''2'', CHR 0x22]"
    by (simp only: example_etags)
  from main have t2: "map_of (headers r2) ''ETag'' = Some [CHR 0x22, CHR ''-'', CHR ''8'', CHR 0x22]"
    by (simp only: example_etags)
  from t1 t2 have ne: "map_of (headers r1) ''ETag'' \<noteq> map_of (headers r2) ''ETag''"
    by simp
  show ?thesis
    using r1 r2 h1 h2 t1 t2 ne by (intro exI [of _ r1] exI [of _ r2] conjI) assumption+
qed

end
